theory Spec2Isabelle
  imports Complex_Main "HOL-Library.Multiset" "HOL-Library.Sublist"
begin

section \<open>Python values used by \<^verbatim>\<open>scripts/parseCsv.py\<close>\<close>

text \<open>
  A Python \<^verbatim>\<open>str\<close> is a sequence of Unicode code points; slicing, \<^verbatim>\<open>in\<close> and
  \<^verbatim>\<open>strip\<close> all work on code points. It is modelled as a list of code points.
\<close>

type_synonym pystr = "nat list"

text \<open>
  \<^verbatim>\<open>csv.DictReader\<close> yields one dict per line. A key of the header maps to the text of
  its cell, or to \<^verbatim>\<open>None\<close> (the reader's \<^verbatim>\<open>restval\<close>) when the line has fewer cells than
  the header; a name that is not in the header is not a key at all.
\<close>

datatype pyval = PyNone | PyStr pystr

type_synonym row = "pystr \<rightharpoonup> pyval"

text \<open>
  The exceptions of the loop body: \<^verbatim>\<open>float\<close> raises \<^verbatim>\<open>ValueError\<close>, calling
  \<^verbatim>\<open>.strip()\<close> on \<^verbatim>\<open>None\<close> raises \<^verbatim>\<open>AttributeError\<close>; \<^verbatim>\<open>KeyError\<close> is named by
  the handler.
\<close>

datatype error = ValueError | KeyError | AttributeError

definition py_bind :: "error + 'a \<Rightarrow> ('a \<Rightarrow> error + 'b) \<Rightarrow> error + 'b" where
  "py_bind m f = (case m of Inl e \<Rightarrow> Inl e | Inr x \<Rightarrow> f x)"

text \<open>\<^verbatim>\<open>str.isspace\<close> on one code point (the characters \<^verbatim>\<open>str.strip()\<close> removes).\<close>

definition isspace :: "nat \<Rightarrow> bool" where
  "isspace c \<longleftrightarrow>
     (0x09 \<le> c \<and> c \<le> 0x0D) \<or> (0x1C \<le> c \<and> c \<le> 0x20) \<or> c = 0x85 \<or> c = 0xA0 \<or>
     c = 0x1680 \<or> (0x2000 \<le> c \<and> c \<le> 0x200A) \<or> c = 0x2028 \<or> c = 0x2029 \<or>
     c = 0x202F \<or> c = 0x205F \<or> c = 0x3000"

definition strip :: "pystr \<Rightarrow> pystr" where
  "strip s = rev (dropWhile isspace (rev (dropWhile isspace s)))"

text \<open>\<^verbatim>\<open>row.get(key, '').strip()\<close>\<close>

definition get_strip :: "row \<Rightarrow> pystr \<Rightarrow> error + pystr" where
  "get_strip r key =
     (case r key of
        None \<Rightarrow> Inr (strip [])
      | Some PyNone \<Rightarrow> Inl AttributeError
      | Some (PyStr s) \<Rightarrow> Inr (strip s))"

text \<open>\<^verbatim>\<open>keyword in name\<close>: \<^verbatim>\<open>keyword\<close> occurs in \<^verbatim>\<open>name\<close> as a contiguous substring.\<close>

fun py_in :: "pystr \<Rightarrow> pystr \<Rightarrow> bool" where
  "py_in keyword [] = (keyword = [])"
| "py_in keyword (c # cs) = (prefix keyword (c # cs) \<or> py_in keyword cs)"

text \<open>\<^verbatim>\<open>str(n)\<close> for an integer: decimal digits, with a minus sign when negative.\<close>

fun digits :: "nat \<Rightarrow> pystr" where
  "digits n = (if n < 10 then [0x30 + n] else digits (n div 10) @ [0x30 + n mod 10])"

declare digits.simps [simp del]

definition py_str :: "int \<Rightarrow> pystr" where
  "py_str i = (if i < 0 then 0x2D # digits (nat (- i)) else digits (nat i))"

text \<open>
  \<^verbatim>\<open>float(s)\<close>: the parser is Python's own; it is a parameter \<open>float_parse\<close> of the
  model, \<open>None\<close> where \<^verbatim>\<open>float\<close> raises \<^verbatim>\<open>ValueError\<close>. The type \<open>'f\<close> stands for
  Python's floats.
\<close>

definition py_float :: "(pystr \<Rightarrow> 'f option) \<Rightarrow> pystr \<Rightarrow> error + 'f" where
  "py_float float_parse s =
     (case float_parse s of None \<Rightarrow> Inl ValueError | Some x \<Rightarrow> Inr x)"

section \<open>The constants of the script\<close>

text \<open>The column names, in the order the loop reads them.\<close>

definition key_name :: pystr where
  "key_name = [0x540D, 0x79F0]"

definition key_lat :: pystr where
  "key_lat = [0x7DEF, 0x5EA6]"

definition key_lon :: pystr where
  "key_lon = [0x7D4C, 0x5EA6]"

definition key_description :: pystr where
  "key_description = [0x8AAC, 0x660E]"

definition key_start_time :: pystr where
  "key_start_time = [0x958B, 0x59CB, 0x6642, 0x9593]"

definition key_end_time :: pystr where
  "key_end_time = [0x7D42, 0x4E86, 0x6642, 0x9593]"

definition key_time_note :: pystr where
  "key_time_note = [0x5229, 0x7528, 0x53EF, 0x80FD, 0x65E5, 0x6642, 0x7279, 0x8A18, 0x4E8B, 0x9805]"

definition key_price_basic :: pystr where
  "key_price_basic = [0x6599, 0x91D1, 0xFF08, 0x57FA, 0x672C, 0xFF09]"

definition key_price_detail :: pystr where
  "key_price_detail = [0x6599, 0x91D1, 0xFF08, 0x8A73, 0x7D30, 0xFF09]"

text \<open>\<^verbatim>\<open>exclude_keywords\<close>, in the order of the source.\<close>

definition exclude_keywords :: "pystr list" where
  "exclude_keywords =
     [ [0x30BB, 0x30F3, 0x30BF, 0x30FC],
      [0x99D0, 0x8ECA, 0x5834],
      [0x99D0, 0x8F2A, 0x5834],
      [0x30DB, 0x30C6, 0x30EB],
      [0x5BBF],
      [0x30B5, 0x30FC, 0x30D3, 0x30B9],
      [0x30A4, 0x30F3],
      [0x4F11, 0x9928, 0x4E2D],
      [0x4EA4, 0x6D41, 0x9928],
      [0x30A4, 0x30F3, 0x30D5, 0x30A9, 0x30E1, 0x30FC, 0x30B7, 0x30E7, 0x30F3],
      [0x65C5, 0x9928],
      [0x30DB, 0x30FC, 0x30EB],
      [0x30D7, 0x30FC, 0x30EB],
      [0x30BF, 0x30AF, 0x30B7, 0x30FC] ]"

text \<open>The literal parts of the three f-strings.\<close>

definition spot_prefix :: pystr where
  "spot_prefix = [0x73, 0x70, 0x6F, 0x74, 0x2D]"

definition description_suffix :: pystr where
  "description_suffix = [0x306E, 0x89B3, 0x5149, 0x30B9, 0x30DD, 0x30C3, 0x30C8]"

definition wave :: pystr where
  "wave = [0xFF5E]"

section \<open>The Spot record\<close>

record 'f coordinates =
  latitude :: 'f
  longitude :: 'f

text \<open>
  The dict built in the loop. The keys \<^verbatim>\<open>openingHours\<close> and \<^verbatim>\<open>price\<close> are set only
  on some paths: \<open>None\<close> is the absent key.
\<close>

record 'f spot =
  id_key :: pystr
  name :: pystr
  description :: pystr
  congestionLevel :: int
  location :: "'f coordinates"
  openingHours :: "pystr option"
  price :: "pystr option"

section \<open>The loop body\<close>

text \<open>
  The body of the \<^verbatim>\<open>try\<close> block for one row. \<open>Inr None\<close> is a \<^verbatim>\<open>continue\<close>,
  \<open>Inr (Some s)\<close> reaches \<^verbatim>\<open>spots.append(spot)\<close>, \<open>Inl e\<close> is a raised exception.
  \<open>draw\<close> is what \<^verbatim>\<open>random.randint(1, 5)\<close> returns if the body calls it, and
  \<open>is_zero x\<close> is the Python test \<^verbatim>\<open>x == 0\<close> on a float.
\<close>

definition row_body ::
  "(pystr \<Rightarrow> 'f option) \<Rightarrow> ('f \<Rightarrow> bool) \<Rightarrow> int \<Rightarrow> int \<Rightarrow> row \<Rightarrow> error + 'f spot option" where
  "row_body float_parse is_zero spot_id draw r =
     py_bind (get_strip r key_name) (\<lambda>name.
     py_bind (get_strip r key_lat) (\<lambda>lat_str.
     py_bind (get_strip r key_lon) (\<lambda>lon_str.
     py_bind (get_strip r key_description) (\<lambda>d.
     let description = take 150 d in
     if list_ex (\<lambda>keyword. py_in keyword name) exclude_keywords then Inr None
     else
     py_bind (get_strip r key_start_time) (\<lambda>start_time.
     py_bind (get_strip r key_end_time) (\<lambda>end_time.
     py_bind (get_strip r key_time_note) (\<lambda>time_note.
     py_bind (get_strip r key_price_basic) (\<lambda>price_basic.
     py_bind (get_strip r key_price_detail) (\<lambda>price_detail.
     if name = [] \<or> lat_str = [] \<or> lon_str = [] then Inr None
     else
     py_bind (py_float float_parse lat_str) (\<lambda>lat.
     py_bind (py_float float_parse lon_str) (\<lambda>lon.
     if is_zero lat \<or> is_zero lon then Inr None
     else
     let congestion_level = draw;
         opening_hours =
           (if start_time \<noteq> [] \<and> end_time \<noteq> [] then start_time @ wave @ end_time
            else if time_note \<noteq> [] then time_note
            else [])
     in Inr (Some
          \<lparr> id_key = spot_prefix @ py_str spot_id,
            name = name,
            description = (if description \<noteq> [] then description else name @ description_suffix),
            congestionLevel = congestion_level,
            location = \<lparr> latitude = lat, longitude = lon \<rparr>,
            openingHours = (if opening_hours \<noteq> [] then Some opening_hours else None),
            price = (if price_detail \<noteq> [] then Some price_detail
                     else if price_basic \<noteq> [] then Some price_basic
                     else None) \<rparr>))))))))))))"

section \<open>The loop\<close>

text \<open>
  The state the loop changes: the list \<^verbatim>\<open>spots\<close>, the counter \<^verbatim>\<open>spot_id\<close>, and the
  number of calls made to \<^verbatim>\<open>random.randint\<close> so far.
\<close>

record 'f gen_state =
  spots :: "'f spot list"
  spot_id :: int
  rand_calls :: nat

text \<open>
  One iteration with its handler. \<open>randint n\<close> is the result of the \<open>n\<close>-th call of
  \<^verbatim>\<open>random.randint(1, 5)\<close>, counted from 0. The result is the exception that leaves
  the \<^verbatim>\<open>try\<close> statement, if any, and the state then: \<^verbatim>\<open>ValueError\<close> and
  \<^verbatim>\<open>KeyError\<close> are caught and the loop continues, any other exception propagates.
\<close>

definition process_row ::
  "(pystr \<Rightarrow> 'f option) \<Rightarrow> ('f \<Rightarrow> bool) \<Rightarrow> (nat \<Rightarrow> int) \<Rightarrow> 'f gen_state \<Rightarrow> row \<Rightarrow>
     error option \<times> 'f gen_state" where
  "process_row float_parse is_zero randint st r =
     (case row_body float_parse is_zero (spot_id st) (randint (rand_calls st)) r of
        Inl ValueError \<Rightarrow> (None, st)
      | Inl KeyError \<Rightarrow> (None, st)
      | Inl AttributeError \<Rightarrow> (Some AttributeError, st)
      | Inr None \<Rightarrow> (None, st)
      | Inr (Some s) \<Rightarrow>
          (None, st \<lparr> spots := spots st @ [s],
                      spot_id := spot_id st + 1,
                      rand_calls := Suc (rand_calls st) \<rparr>))"

text \<open>The \<^verbatim>\<open>for\<close> loop: an exception that leaves an iteration ends the loop.\<close>

fun process_rows ::
  "(pystr \<Rightarrow> 'f option) \<Rightarrow> ('f \<Rightarrow> bool) \<Rightarrow> (nat \<Rightarrow> int) \<Rightarrow> 'f gen_state \<Rightarrow> row list \<Rightarrow>
     error option \<times> 'f gen_state" where
  "process_rows float_parse is_zero randint st [] = (None, st)"
| "process_rows float_parse is_zero randint st (r # rs) =
     (case process_row float_parse is_zero randint st r of
        (Some e, st') \<Rightarrow> (Some e, st')
      | (None, st') \<Rightarrow> process_rows float_parse is_zero randint st' rs)"

text \<open>The script up to the end of the loop: \<^verbatim>\<open>spots = []\<close>, \<^verbatim>\<open>spot_id = 1\<close>.\<close>

definition init_state :: "'f gen_state" where
  "init_state = \<lparr> spots = [], spot_id = 1, rand_calls = 0 \<rparr>"

definition parse_csv ::
  "(pystr \<Rightarrow> 'f option) \<Rightarrow> ('f \<Rightarrow> bool) \<Rightarrow> (nat \<Rightarrow> int) \<Rightarrow> row list \<Rightarrow>
     error option \<times> 'f gen_state" where
  "parse_csv float_parse is_zero randint rows =
     process_rows float_parse is_zero randint init_state rows"

text \<open>
  The list the script writes out as \<^verbatim>\<open>KYOTO_SPOTS\<close>; \<open>None\<close> when an uncaught
  exception ended the script before the file was written.
\<close>

definition generated ::
  "(pystr \<Rightarrow> 'f option) \<Rightarrow> ('f \<Rightarrow> bool) \<Rightarrow> (nat \<Rightarrow> int) \<Rightarrow> row list \<Rightarrow> 'f spot list option" where
  "generated float_parse is_zero randint rows =
     (case parse_csv float_parse is_zero randint rows of
        (None, st) \<Rightarrow> Some (spots st)
      | (Some e, st) \<Rightarrow> None)"

section \<open>The emitted module: \<^verbatim>\<open>findNearbySpots\<close>\<close>

text \<open>
  The script writes a TypeScript module holding the generated list as \<^verbatim>\<open>KYOTO_SPOTS\<close>
  and three functions. Their text is fixed in the template, so they are modelled from it.
  A TypeScript \<^verbatim>\<open>number\<close> is an IEEE double, the same values as Python's floats. Its
  arithmetic is not written in the script: the rounding of every operation, NaN and the
  infinities, and \<^verbatim>\<open>Math.sin\<close>, \<^verbatim>\<open>Math.cos\<close> and \<^verbatim>\<open>Math.atan2\<close>, whose results
  ECMAScript leaves to the implementation. It is a parameter of the model: the operations
  the module uses, on the type \<open>'n\<close> of numbers. \<open>js_lit\<close> is the value of a numeric
  literal, \<open>js_le x y\<close> the comparison \<^verbatim>\<open>x <= y\<close>.
\<close>

record 'n js_math =
  js_lit :: "int \<Rightarrow> 'n"
  js_PI :: 'n
  js_add :: "'n \<Rightarrow> 'n \<Rightarrow> 'n"
  js_sub :: "'n \<Rightarrow> 'n \<Rightarrow> 'n"
  js_mul :: "'n \<Rightarrow> 'n \<Rightarrow> 'n"
  js_div :: "'n \<Rightarrow> 'n \<Rightarrow> 'n"
  js_sin :: "'n \<Rightarrow> 'n"
  js_cos :: "'n \<Rightarrow> 'n"
  js_sqrt :: "'n \<Rightarrow> 'n"
  js_atan2 :: "'n \<Rightarrow> 'n \<Rightarrow> 'n"
  js_le :: "'n \<Rightarrow> 'n \<Rightarrow> bool"

definition deg2rad :: "'n js_math \<Rightarrow> 'n \<Rightarrow> 'n" where
  "deg2rad M deg = js_mul M deg (js_div M (js_PI M) (js_lit M 180))"

text \<open>
  The products are taken from the left, as \<^verbatim>\<open>*\<close> associates: in doubles the order
  of the operations matters.
\<close>

definition getDistanceFromLatLonInKm :: "'n js_math \<Rightarrow> 'n \<Rightarrow> 'n \<Rightarrow> 'n \<Rightarrow> 'n \<Rightarrow> 'n" where
  "getDistanceFromLatLonInKm M lat1 lon1 lat2 lon2 =
     (let R = js_lit M 6371;
          dLat = deg2rad M (js_sub M lat2 lat1);
          dLon = deg2rad M (js_sub M lon2 lon1);
          a = js_add M
                (js_mul M (js_sin M (js_div M dLat (js_lit M 2)))
                          (js_sin M (js_div M dLat (js_lit M 2))))
                (js_mul M
                  (js_mul M
                    (js_mul M (js_cos M (deg2rad M lat1)) (js_cos M (deg2rad M lat2)))
                    (js_sin M (js_div M dLon (js_lit M 2))))
                  (js_sin M (js_div M dLon (js_lit M 2))));
          c = js_mul M (js_lit M 2)
                (js_atan2 M (js_sqrt M a) (js_sqrt M (js_sub M (js_lit M 1) a)));
          d = js_mul M R c
      in d)"

text \<open>
  \<^verbatim>\<open>Array.prototype.sort(compare)\<close>. ECMAScript requires the sort to be stable; with a
  comparator that orders by a key, the result is the one stable sorted arrangement, which
  insertion from the right computes: an element goes in front of the first element it
  does not compare greater than. The key here is \<^verbatim>\<open>congestionLevel\<close>, the integer the
  generator stored, and the comparator is the difference of two of them.
\<close>

fun js_insert :: "('a \<Rightarrow> 'a \<Rightarrow> int) \<Rightarrow> 'a \<Rightarrow> 'a list \<Rightarrow> 'a list" where
  "js_insert compare a [] = [a]"
| "js_insert compare a (b # bs) =
     (if compare a b \<le> 0 then a # b # bs else b # js_insert compare a bs)"

fun js_sort :: "('a \<Rightarrow> 'a \<Rightarrow> int) \<Rightarrow> 'a list \<Rightarrow> 'a list" where
  "js_sort compare [] = []"
| "js_sort compare (a # as) = js_insert compare a (js_sort compare as)"

text \<open>
  \<^verbatim>\<open>findNearbySpots(currentLoc, radiusKm = 5)\<close>. The second argument of the model is
  the module constant \<^verbatim>\<open>KYOTO_SPOTS\<close>; \<open>None\<close> for the radius is a call that leaves
  the argument out.
\<close>

definition findNearbySpots ::
  "'n js_math \<Rightarrow> 'n spot list \<Rightarrow> 'n coordinates \<Rightarrow> 'n option \<Rightarrow> 'n spot list" where
  "findNearbySpots M KYOTO_SPOTS currentLoc radius_arg =
     (let radiusKm = (case radius_arg of None \<Rightarrow> js_lit M 5 | Some r \<Rightarrow> r);
          filteredSpots =
            filter (\<lambda>spot.
              let dist = getDistanceFromLatLonInKm M
                           (latitude currentLoc) (longitude currentLoc)
                           (latitude (location spot)) (longitude (location spot))
              in js_le M dist radiusKm) KYOTO_SPOTS
      in js_sort (\<lambda>a b. congestionLevel a - congestionLevel b) filteredSpots)"

section \<open>The notions the specification uses\<close>

text \<open>
  The nine columns the loop reads, and the rows in which none of them is \<^verbatim>\<open>None\<close>:
  the lines that are not shorter than the header.
\<close>

definition read_keys :: "pystr list" where
  "read_keys =
     [key_name, key_lat, key_lon, key_description, key_start_time, key_end_time,
      key_time_note, key_price_basic, key_price_detail]"

definition no_missing_cell :: "row \<Rightarrow> bool" where
  "no_missing_cell r = list_all (\<lambda>key. r key \<noteq> Some PyNone) read_keys"

section \<open>Example inputs\<close>

text \<open>
  Concrete inputs on which the theorems below are evaluated. \<open>ex_float\<close> agrees with
  Python's \<^verbatim>\<open>float\<close> on the strings the examples use: \<^verbatim>\<open>'35'\<close>, \<^verbatim>\<open>'135'\<close>,
  \<^verbatim>\<open>'0'\<close>, and \<^verbatim>\<open>'x'\<close>, which \<^verbatim>\<open>float\<close> rejects.
\<close>

definition ex_float :: "pystr \<Rightarrow> real option" where
  "ex_float s =
     (if s = [0x33, 0x35] then Some 35
      else if s = [0x31, 0x33, 0x35] then Some 135
      else if s = [0x30] then Some 0
      else None)"

definition ex_is_zero :: "real \<Rightarrow> bool" where
  "ex_is_zero x \<longleftrightarrow> x = 0"

definition ex_randint :: "nat \<Rightarrow> int" where
  "ex_randint n = 3"

text \<open>A complete row: a temple at (35, 135), open 9 to 17, basic price only.\<close>

definition row_temple :: row where
  "row_temple =
     [key_name \<mapsto> PyStr [0x5BFA],
      key_lat \<mapsto> PyStr [0x33, 0x35],
      key_lon \<mapsto> PyStr [0x31, 0x33, 0x35],
      key_description \<mapsto> PyStr [0x20, 0x5BFA, 0x20],
      key_start_time \<mapsto> PyStr [0x39],
      key_end_time \<mapsto> PyStr [0x31, 0x37],
      key_time_note \<mapsto> PyStr [0x4F11],
      key_price_basic \<mapsto> PyStr [0x35],
      key_price_detail \<mapsto> PyStr []]"

definition spot_temple :: "real spot" where
  "spot_temple =
     \<lparr> id_key = [0x73, 0x70, 0x6F, 0x74, 0x2D, 0x31],
       name = [0x5BFA],
       description = [0x5BFA],
       congestionLevel = 3,
       location = \<lparr> latitude = 35, longitude = 135 \<rparr>,
       openingHours = Some [0x39, 0xFF5E, 0x31, 0x37],
       price = Some [0x35] \<rparr>"

text \<open>A row whose name holds the fourth keyword, after a letter A.\<close>

definition row_hotel :: row where
  "row_hotel =
     [key_name \<mapsto> PyStr [0x41, 0x30DB, 0x30C6, 0x30EB],
      key_lat \<mapsto> PyStr [0x33, 0x35],
      key_lon \<mapsto> PyStr [0x31, 0x33, 0x35]]"

text \<open>A row whose latitude is the text \<^verbatim>\<open>0\<close>.\<close>

definition row_zero :: row where
  "row_zero =
     [key_name \<mapsto> PyStr [0x5BFA],
      key_lat \<mapsto> PyStr [0x30],
      key_lon \<mapsto> PyStr [0x31, 0x33, 0x35]]"

text \<open>A row whose latitude is the text \<^verbatim>\<open>x\<close>, in a file with three columns.\<close>

definition row_bad :: row where
  "row_bad =
     [key_name \<mapsto> PyStr [0x5BFA],
      key_lat \<mapsto> PyStr [0x78],
      key_lon \<mapsto> PyStr [0x31, 0x33, 0x35]]"

text \<open>
  The same cells in a file whose header has a fourth column, the detailed price: the
  line has three cells, so the reader fills the fourth with \<^verbatim>\<open>None\<close>.
\<close>

definition row_short :: row where
  "row_short =
     [key_name \<mapsto> PyStr [0x5BFA],
      key_lat \<mapsto> PyStr [0x78],
      key_lon \<mapsto> PyStr [0x31, 0x33, 0x35],
      key_price_detail \<mapsto> PyNone]"

text \<open>The record the second pass over the temple row produces: the same, with the next id.\<close>

definition spot_temple2 :: "real spot" where
  "spot_temple2 = spot_temple \<lparr> id_key := [0x73, 0x70, 0x6F, 0x74, 0x2D, 0x32] \<rparr>"

text \<open>
  A line that holds a single blank, in the file with the nine columns of \<open>row_temple\<close>,
  the name first: the reader fills the other eight cells with \<^verbatim>\<open>None\<close>.
\<close>

definition row_blank :: row where
  "row_blank =
     [key_name \<mapsto> PyStr [0x20],
      key_lat \<mapsto> PyNone,
      key_lon \<mapsto> PyNone,
      key_description \<mapsto> PyNone,
      key_start_time \<mapsto> PyNone,
      key_end_time \<mapsto> PyNone,
      key_time_note \<mapsto> PyNone,
      key_price_basic \<mapsto> PyNone,
      key_price_detail \<mapsto> PyNone]"

section \<open>Loop invariants\<close>

text \<open>
  What every state of the loop satisfies: the counter is one more than the number of
  records, and the record at index \<open>k\<close> carries the id made from \<open>k + 1\<close>.
\<close>

definition ids_ok :: "'f gen_state \<Rightarrow> bool" where
  "ids_ok st \<longleftrightarrow>
     spot_id st = 1 + int (length (spots st)) \<and>
     (\<forall>k < length (spots st). id_key (spots st ! k) = spot_prefix @ py_str (int k + 1))"

text \<open>
  The record at index \<open>k\<close> carries the result of call number \<open>k\<close> of
  \<^verbatim>\<open>random.randint(1, 5)\<close>, and there was one call per record.
\<close>

definition levels_ok :: "(nat \<Rightarrow> int) \<Rightarrow> 'f gen_state \<Rightarrow> bool" where
  "levels_ok randint st \<longleftrightarrow>
     rand_calls st = length (spots st) \<and>
     (\<forall>k < length (spots st). congestionLevel (spots st ! k) = randint k)"

section \<open>Helper lemmas: the loop body\<close>

lemma py_in_sublist: "py_in keyword s \<longleftrightarrow> sublist keyword s"
  by (induction s) (auto simp: sublist_Cons_right)

lemma py_bind_Inr: "py_bind m f = Inr y \<longleftrightarrow> (\<exists>x. m = Inr x \<and> f x = Inr y)"
  by (cases m) (auto simp: py_bind_def)

lemma py_float_Inr: "py_float fp s = Inr x \<longleftrightarrow> fp s = Some x"
  by (auto simp: py_float_def split: option.splits)

lemma py_bind_InrE:
  assumes "py_bind m f = Inr y"
  obtains x where "m = Inr x" and "f x = Inr y"
  using assms by (cases m) (auto simp: py_bind_def)

lemma if_skip: "((if c then Inr None else m) = Inr (Some s)) \<longleftrightarrow> (\<not> c \<and> m = Inr (Some s))"
  by simp

lemma row_body_SomeE:
  assumes "row_body fp iz i d r = Inr (Some s)"
  obtains nm lat_str lon_str ds start_time end_time time_note price_basic price_detail lat lon
  where "get_strip r key_name = Inr nm" and "get_strip r key_lat = Inr lat_str"
    and "get_strip r key_lon = Inr lon_str" and "get_strip r key_description = Inr ds"
    and "get_strip r key_start_time = Inr start_time" and "get_strip r key_end_time = Inr end_time"
    and "get_strip r key_time_note = Inr time_note"
    and "get_strip r key_price_basic = Inr price_basic"
    and "get_strip r key_price_detail = Inr price_detail"
    and "\<not> list_ex (\<lambda>keyword. py_in keyword nm) exclude_keywords"
    and "nm \<noteq> []" and "lat_str \<noteq> []" and "lon_str \<noteq> []"
    and "fp lat_str = Some lat" and "fp lon_str = Some lon" and "\<not> iz lat" and "\<not> iz lon"
    and "s = \<lparr> id_key = spot_prefix @ py_str i,
            name = nm,
            description = (if take 150 ds \<noteq> [] then take 150 ds else nm @ description_suffix),
            congestionLevel = d,
            location = \<lparr> latitude = lat, longitude = lon \<rparr>,
            openingHours =
              (if (if start_time \<noteq> [] \<and> end_time \<noteq> [] then start_time @ wave @ end_time
                   else if time_note \<noteq> [] then time_note else []) \<noteq> []
               then Some (if start_time \<noteq> [] \<and> end_time \<noteq> [] then start_time @ wave @ end_time
                   else if time_note \<noteq> [] then time_note else [])
               else None),
            price = (if price_detail \<noteq> [] then Some price_detail
                     else if price_basic \<noteq> [] then Some price_basic
                     else None) \<rparr>"
  using assms unfolding row_body_def Let_def
  apply (elim py_bind_InrE)
  apply (simp only: if_skip)
  apply (elim conjE py_bind_InrE)
  apply (simp only: if_skip)
  apply (elim conjE py_bind_InrE)
  apply (simp only: if_skip py_float_Inr)
  apply (elim conjE)
  apply (simp only: sum.inject option.inject de_Morgan_disj)
  apply (elim conjE)
  apply (drule sym)
  apply blast
  done


lemma get_strip_cases:
  "get_strip r key = Inl AttributeError \<and> r key = Some PyNone \<or>
   (\<exists>t. get_strip r key = Inr t) \<and> r key \<noteq> Some PyNone"
  by (auto simp: get_strip_def split: option.splits pyval.splits)

lemma no_missing_cell_get_strip:
  assumes "no_missing_cell r" and "key \<in> set read_keys"
  shows "\<exists>t. get_strip r key = Inr t"
  using assms get_strip_cases [of r key] by (auto simp: no_missing_cell_def list_all_iff)

lemma process_row_unchanged:
  assumes "\<And>s. row_body fp iz (spot_id st) (rnd (rand_calls st)) r \<noteq> Inr (Some s)"
  shows "snd (process_row fp iz rnd st r) = st"
  using assms unfolding process_row_def
  by (auto split: sum.splits error.splits option.splits)

lemma process_row_continue:
  assumes "\<And>s. row_body fp iz (spot_id st) (rnd (rand_calls st)) r \<noteq> Inr (Some s)"
    and "row_body fp iz (spot_id st) (rnd (rand_calls st)) r \<noteq> Inl AttributeError"
  shows "process_row fp iz rnd st r = (None, st)"
  using assms unfolding process_row_def
  by (auto split: sum.splits error.splits option.splits)

lemma process_row_cases:
  "snd (process_row fp iz rnd st r) = st \<and>
     (\<forall>s. row_body fp iz (spot_id st) (rnd (rand_calls st)) r \<noteq> Inr (Some s)) \<or>
   (\<exists>s. row_body fp iz (spot_id st) (rnd (rand_calls st)) r = Inr (Some s) \<and>
        process_row fp iz rnd st r =
          (None, st \<lparr> spots := spots st @ [s], spot_id := spot_id st + 1,
                      rand_calls := Suc (rand_calls st) \<rparr>))"
  unfolding process_row_def
  by (auto split: sum.splits error.splits option.splits)

lemma py_bind_neq_Inl:
  assumes "m \<noteq> Inl e" and "\<And>x. f x \<noteq> Inl e"
  shows "py_bind m f \<noteq> Inl e"
  using assms by (cases m) (auto simp: py_bind_def)

lemma if_neq: "a \<noteq> e \<Longrightarrow> b \<noteq> e \<Longrightarrow> (if c then a else b) \<noteq> e"
  by simp

lemma row_body_no_AttributeError:
  assumes "no_missing_cell r"
  shows "row_body fp iz i d r \<noteq> Inl AttributeError"
proof -
  have k: "\<And>key. key \<in> set read_keys \<Longrightarrow> get_strip r key \<noteq> Inl AttributeError"
    using no_missing_cell_get_strip [OF assms] by fastforce
  have ks: "get_strip r key_name \<noteq> Inl AttributeError" "get_strip r key_lat \<noteq> Inl AttributeError"
    "get_strip r key_lon \<noteq> Inl AttributeError" "get_strip r key_description \<noteq> Inl AttributeError"
    "get_strip r key_start_time \<noteq> Inl AttributeError" "get_strip r key_end_time \<noteq> Inl AttributeError"
    "get_strip r key_time_note \<noteq> Inl AttributeError" "get_strip r key_price_basic \<noteq> Inl AttributeError"
    "get_strip r key_price_detail \<noteq> Inl AttributeError"
    by (rule k, simp add: read_keys_def)+
  have f: "\<And>t. py_float fp t \<noteq> Inl AttributeError"
    by (simp add: py_float_def split: option.splits)
  show ?thesis
    unfolding row_body_def Let_def
    by (intro py_bind_neq_Inl if_neq ks f) simp_all
qed

lemma row_body_no_KeyError: "row_body fp iz i d r \<noteq> Inl KeyError"
proof -
  have g: "get_strip r key \<noteq> Inl KeyError" for key
    using get_strip_cases [of r key] by auto
  have f: "py_float fp t \<noteq> Inl KeyError" for t
    by (simp add: py_float_def split: option.splits)
  show ?thesis
    unfolding row_body_def Let_def
    by (intro py_bind_neq_Inl if_neq g f) simp_all
qed

lemma emitted_fields_ok:
  assumes "row_body fp iz i d r = Inr (Some s)"
  shows "name s \<noteq> [] \<and> \<not> iz (latitude (location s)) \<and> \<not> iz (longitude (location s))"
  using assms by (elim row_body_SomeE) simp

lemma emitted_id:
  assumes "row_body fp iz i d r = Inr (Some s)"
  shows "id_key s = spot_prefix @ py_str i"
  using assms by (elim row_body_SomeE) simp

lemma emitted_congestion_is_draw:
  assumes "row_body fp iz i d r = Inr (Some s)"
  shows "congestionLevel s = d"
  using assms by (elim row_body_SomeE) simp

section \<open>Helper lemmas: the loop\<close>

lemma process_rows_invariant:
  assumes "I st" and "\<And>st r. I st \<Longrightarrow> I (snd (process_row fp iz rnd st r))"
  shows "I (snd (process_rows fp iz rnd st rows))"
  using assms(1)
proof (induction rows arbitrary: st)
  case Nil
  then show ?case by simp
next
  case (Cons r rows)
  obtain e st' where p: "process_row fp iz rnd st r = (e, st')"
    by (cases "process_row fp iz rnd st r")
  have "I st'" using assms(2) [OF Cons.prems, of r] p by simp
  then show ?case using Cons.IH [of st'] p by (cases e) simp_all
qed

lemma generated_Some:
  "generated fp iz rnd rows = Some S \<Longrightarrow> S = spots (snd (parse_csv fp iz rnd rows))"
  by (auto simp: generated_def split: prod.splits option.splits)

lemma process_rows_skip:
  assumes "\<And>st. process_row fp iz rnd st r = (None, st)"
  shows "process_rows fp iz rnd st (before @ r # after) = process_rows fp iz rnd st (before @ after)"
proof (induction before arbitrary: st)
  case Nil
  then show ?case by (simp add: assms)
next
  case (Cons b before)
  then show ?case by (simp split: prod.splits option.splits)
qed

lemma spots_come_from_rows:
  "\<forall>s \<in> set (spots (snd (parse_csv fp iz rnd rows))).
     \<exists>r \<in> set rows. \<exists>i d. row_body fp iz i d r = Inr (Some s)"
proof -
  have "\<forall>s \<in> set (spots (snd (process_rows fp iz rnd st rows))).
          s \<in> set (spots st) \<or> (\<exists>r \<in> set rows. \<exists>i d. row_body fp iz i d r = Inr (Some s))"
    for st :: "'a gen_state"
  proof (induction rows arbitrary: st)
    case Nil
    then show ?case by simp
  next
    case (Cons r rows)
    obtain e st' where p: "process_row fp iz rnd st r = (e, st')"
      by (cases "process_row fp iz rnd st r")
    have step: "\<forall>s \<in> set (spots st'). s \<in> set (spots st) \<or> (\<exists>i d. row_body fp iz i d r = Inr (Some s))"
      using process_row_cases [of fp iz rnd st r] p by auto
    show ?case
    proof (cases e)
      case None
      then show ?thesis using Cons.IH [of st'] step p by (simp; blast)
    next
      case (Some a)
      then show ?thesis using step p by (simp; blast)
    qed
  qed
  from this [of init_state] show ?thesis
    by (simp add: parse_csv_def init_state_def)
qed

lemma ids_ok_process_row:
  assumes "ids_ok st"
  shows "ids_ok (snd (process_row fp iz rnd st r))"
proof -
  from process_row_cases [of fp iz rnd st r] show ?thesis
  proof (elim disjE conjE exE)
    assume "snd (process_row fp iz rnd st r) = st"
    then show ?thesis using assms by simp
  next
    fix s
    assume b: "row_body fp iz (spot_id st) (rnd (rand_calls st)) r = Inr (Some s)"
      and p: "process_row fp iz rnd st r =
          (None, st \<lparr> spots := spots st @ [s], spot_id := spot_id st + 1,
                      rand_calls := Suc (rand_calls st) \<rparr>)"
    have "id_key s = spot_prefix @ py_str (1 + int (length (spots st)))"
      using emitted_id [OF b] assms by (simp add: ids_ok_def)
    then show ?thesis
      using assms p by (auto simp: ids_ok_def nth_append less_Suc_eq add.commute)
  qed
qed

lemma levels_ok_process_row:
  assumes "levels_ok rnd st"
  shows "levels_ok rnd (snd (process_row fp iz rnd st r))"
proof -
  from process_row_cases [of fp iz rnd st r] show ?thesis
  proof (elim disjE conjE exE)
    assume "snd (process_row fp iz rnd st r) = st"
    then show ?thesis using assms by simp
  next
    fix s
    assume b: "row_body fp iz (spot_id st) (rnd (rand_calls st)) r = Inr (Some s)"
      and p: "process_row fp iz rnd st r =
          (None, st \<lparr> spots := spots st @ [s], spot_id := spot_id st + 1,
                      rand_calls := Suc (rand_calls st) \<rparr>)"
    have "congestionLevel s = rnd (length (spots st))"
      using emitted_congestion_is_draw [OF b] assms by (simp add: levels_ok_def)
    then show ?thesis
      using assms p by (auto simp: levels_ok_def nth_append less_Suc_eq)
  qed
qed

lemma congestion_levels_are_draws:
  "levels_ok rnd (snd (parse_csv fp iz rnd rows))"
  unfolding parse_csv_def
proof (rule process_rows_invariant [where I = "levels_ok rnd"])
  show "levels_ok rnd init_state" by (simp add: levels_ok_def init_state_def)
next
  fix st :: "'a gen_state" and r
  assume "levels_ok rnd st"
  then show "levels_ok rnd (snd (process_row fp iz rnd st r))" by (rule levels_ok_process_row)
qed

lemma congestion_levels_in_range:
  assumes "\<And>n. 1 \<le> rnd n \<and> rnd n \<le> 5"
  shows "\<forall>s \<in> set (spots (snd (parse_csv fp iz rnd rows))).
           1 \<le> congestionLevel s \<and> congestionLevel s \<le> 5"
proof
  fix s
  assume "s \<in> set (spots (snd (parse_csv fp iz rnd rows)))"
  then obtain k where k: "k < length (spots (snd (parse_csv fp iz rnd rows)))"
    and s: "s = spots (snd (parse_csv fp iz rnd rows)) ! k"
    by (auto simp: in_set_conv_nth)
  have "congestionLevel s = rnd k"
    using congestion_levels_are_draws [of rnd fp iz rows] k s by (simp add: levels_ok_def)
  then show "1 \<le> congestionLevel s \<and> congestionLevel s \<le> 5"
    using assms [of k] by simp
qed

section \<open>Helper lemmas: the search\<close>

lemma js_insert_insort_key:
  "js_insert (\<lambda>a b. f a - f b) x ys = insort_key f x ys"
  by (induction ys) auto

lemma js_sort_sort_key: "js_sort (\<lambda>a b. f a - f b) xs = sort_key f xs"
  by (induction xs) (auto simp: js_insert_insort_key)

text \<open>
  Whatever the arithmetic of numbers is: \<^verbatim>\<open>findNearbySpots\<close> returns the spots for
  which the comparison of the computed distance with the radius holds, each as often as
  it occurs in the list, sorted ascending by \<^verbatim>\<open>congestionLevel\<close>, the spots of one
  level in the order they had in the list.
\<close>

lemma findNearbySpots_filter_sorted_stable:
  fixes M :: "'n js_math" and KYOTO_SPOTS :: "'n spot list" and currentLoc :: "'n coordinates"
    and radiusKm :: 'n
  defines "near \<equiv> filter (\<lambda>spot. js_le M
      (getDistanceFromLatLonInKm M (latitude currentLoc) (longitude currentLoc)
         (latitude (location spot)) (longitude (location spot))) radiusKm) KYOTO_SPOTS"
    and "result \<equiv> findNearbySpots M KYOTO_SPOTS currentLoc (Some radiusKm)"
  shows "mset result = mset near"
    and "sorted (map congestionLevel result)"
    and "filter (\<lambda>spot. congestionLevel spot = level) result =
         filter (\<lambda>spot. congestionLevel spot = level) near"
proof -
  have r: "result = sort_key congestionLevel near"
    by (simp add: result_def near_def findNearbySpots_def Let_def js_sort_sort_key)
  show "mset result = mset near" by (simp add: r)
  show "sorted (map congestionLevel result)" by (simp add: r)
  show "filter (\<lambda>spot. congestionLevel spot = level) result =
        filter (\<lambda>spot. congestionLevel spot = level) near"
    unfolding r by (rule sort_key_stable)
qed

section \<open>The model on the example inputs\<close>

lemmas key_defs = key_name_def key_lat_def key_lon_def key_description_def key_start_time_def
  key_end_time_def key_time_note_def key_price_basic_def key_price_detail_def

lemma get_strip_temple:
  "get_strip row_temple key_name = Inr [0x5BFA]"
  "get_strip row_temple key_lat = Inr [0x33, 0x35]"
  "get_strip row_temple key_lon = Inr [0x31, 0x33, 0x35]"
  "get_strip row_temple key_description = Inr [0x5BFA]"
  "get_strip row_temple key_start_time = Inr [0x39]"
  "get_strip row_temple key_end_time = Inr [0x31, 0x37]"
  "get_strip row_temple key_time_note = Inr [0x4F11]"
  "get_strip row_temple key_price_basic = Inr [0x35]"
  "get_strip row_temple key_price_detail = Inr []"
  by (simp_all add: get_strip_def row_temple_def key_defs strip_def isspace_def)

lemma py_str_1: "py_str 1 = [0x31]"
  by (simp add: py_str_def digits.simps)

lemma row_body_temple: "row_body ex_float ex_is_zero 1 3 row_temple = Inr (Some spot_temple)"
  unfolding row_body_def get_strip_temple py_bind_def Let_def
  by (simp add: exclude_keywords_def py_float_def ex_float_def ex_is_zero_def spot_temple_def
      spot_prefix_def py_str_1 wave_def)

lemma get_strip_hotel: "get_strip row_hotel key_name = Inr [0x41, 0x30DB, 0x30C6, 0x30EB]"
  by (simp add: get_strip_def row_hotel_def key_defs strip_def isspace_def)

lemma get_strip_zero:
  "get_strip row_zero key_name = Inr [0x5BFA]"
  "get_strip row_zero key_lat = Inr [0x30]"
  "get_strip row_zero key_lon = Inr [0x31, 0x33, 0x35]"
  by (simp_all add: get_strip_def row_zero_def key_defs strip_def isspace_def)

lemma get_strip_bad:
  "get_strip row_bad key_name = Inr [0x5BFA]"
  "get_strip row_bad key_lat = Inr [0x78]"
  "get_strip row_bad key_lon = Inr [0x31, 0x33, 0x35]"
  by (simp_all add: get_strip_def row_bad_def key_defs strip_def isspace_def)

lemma no_missing_cell_bad: "no_missing_cell row_bad"
  by (simp add: no_missing_cell_def read_keys_def row_bad_def key_defs)

lemma get_strip_short:
  "get_strip row_short key_name = Inr [0x5BFA]"
  "get_strip row_short key_lat = Inr [0x78]"
  "get_strip row_short key_lon = Inr [0x31, 0x33, 0x35]"
  "get_strip row_short key_description = Inr []"
  "get_strip row_short key_start_time = Inr []"
  "get_strip row_short key_end_time = Inr []"
  "get_strip row_short key_time_note = Inr []"
  "get_strip row_short key_price_basic = Inr []"
  "get_strip row_short key_price_detail = Inl AttributeError"
  by (simp_all add: get_strip_def row_short_def key_defs strip_def isspace_def)

lemma row_body_short: "row_body ex_float ex_is_zero i d row_short = Inl AttributeError"
  unfolding row_body_def get_strip_short py_bind_def Let_def
  by (simp add: exclude_keywords_def)

lemma process_row_short:
  "process_row ex_float ex_is_zero ex_randint st row_short = (Some AttributeError, st)"
  by (simp add: process_row_def row_body_short)

lemma process_row_temple:
  "process_row ex_float ex_is_zero ex_randint init_state row_temple =
     (None, \<lparr> spots = [spot_temple], spot_id = 2, rand_calls = 1 \<rparr>)"
  by (simp add: process_row_def init_state_def ex_randint_def row_body_temple)

lemma row_body_hotel: "row_body ex_float ex_is_zero i d row_hotel = Inr None"
  by (simp add: row_body_def py_bind_def get_strip_def row_hotel_def key_defs strip_def
      isspace_def exclude_keywords_def)

lemma row_body_zero: "row_body ex_float ex_is_zero i d row_zero = Inr None"
  by (simp add: row_body_def py_bind_def get_strip_def row_zero_def key_defs strip_def
      isspace_def exclude_keywords_def py_float_def ex_float_def ex_is_zero_def)

lemma row_body_bad: "row_body ex_float ex_is_zero i d row_bad = Inl ValueError"
  by (simp add: row_body_def py_bind_def get_strip_def row_bad_def key_defs strip_def
      isspace_def exclude_keywords_def py_float_def ex_float_def)

lemma process_row_dropped_examples:
  "process_row ex_float ex_is_zero ex_randint st row_hotel = (None, st)"
  "process_row ex_float ex_is_zero ex_randint st row_zero = (None, st)"
  "process_row ex_float ex_is_zero ex_randint st row_bad = (None, st)"
  by (simp_all add: process_row_def row_body_hotel row_body_zero row_body_bad)

lemma parse_csv_example1:
  "parse_csv ex_float ex_is_zero ex_randint [row_hotel, row_temple, row_zero] =
     (None, \<lparr> spots = [spot_temple], spot_id = 2, rand_calls = 1 \<rparr>)"
  by (simp add: parse_csv_def process_row_dropped_examples process_row_temple)

lemma py_str_2: "py_str 2 = [0x32]"
  by (simp add: py_str_def digits.simps)

lemma row_body_temple2: "row_body ex_float ex_is_zero 2 3 row_temple = Inr (Some spot_temple2)"
  unfolding row_body_def get_strip_temple py_bind_def Let_def
  by (simp add: exclude_keywords_def py_float_def ex_float_def ex_is_zero_def spot_temple_def
      spot_temple2_def spot_prefix_def py_str_2 wave_def)

lemma process_row_temple2:
  "process_row ex_float ex_is_zero ex_randint
     \<lparr> spots = [spot_temple], spot_id = 2, rand_calls = Suc 0 \<rparr> row_temple =
     (None, \<lparr> spots = [spot_temple, spot_temple2], spot_id = 3, rand_calls = 2 \<rparr>)"
  by (simp add: process_row_def ex_randint_def row_body_temple2)

lemma parse_csv_example2:
  "parse_csv ex_float ex_is_zero ex_randint [row_temple, row_hotel, row_temple] =
     (None, \<lparr> spots = [spot_temple, spot_temple2], spot_id = 3, rand_calls = 2 \<rparr>)"
  by (simp add: parse_csv_def process_row_dropped_examples process_row_temple
      process_row_temple2)

lemma get_strip_blank:
  "get_strip row_blank key_name = Inr []"
  "get_strip row_blank key_lat = Inl AttributeError"
  by (simp_all add: get_strip_def row_blank_def key_defs strip_def isspace_def)

lemma row_body_blank: "row_body ex_float ex_is_zero i d row_blank = Inl AttributeError"
  unfolding row_body_def get_strip_blank py_bind_def Let_def by simp

lemma process_row_blank:
  "process_row ex_float ex_is_zero ex_randint st row_blank = (Some AttributeError, st)"
  by (simp add: process_row_def row_body_blank)

lemma no_missing_cell_zero: "no_missing_cell row_zero"
  by (simp add: no_missing_cell_def read_keys_def row_zero_def key_defs)

section \<open>The nearby-spot search\<close>

text \<open>
  C9. A call of \<^verbatim>\<open>findNearbySpots\<close> that leaves the radius out returns what the call
  with radius 5 returns.
\<close>

theorem default_radius_is_five:
  "findNearbySpots M KYOTO_SPOTS currentLoc None =
   findNearbySpots M KYOTO_SPOTS currentLoc (Some (js_lit M 5))"
  by (simp add: findNearbySpots_def)

section \<open>Rows that are dropped\<close>

text \<open>
  C2. If the stripped name of a row contains one of the 14 entries of
  \<^verbatim>\<open>exclude_keywords\<close> as a substring, the row produces no Spot record, whatever the
  counter and the random draw are, and the iteration leaves the state as it was: nothing
  is appended and \<^verbatim>\<open>spot_id\<close> is not advanced.
\<close>

theorem excluded_keyword_row_dropped:
  assumes "get_strip r key_name = Inr nm"
    and "\<exists>keyword \<in> set exclude_keywords. sublist keyword nm"
  shows "length exclude_keywords = 14 \<and>
         (\<forall>i d s. row_body fp iz i d r \<noteq> Inr (Some s)) \<and>
         snd (process_row fp iz rnd st r) = st"
proof -
  have ex: "list_ex (\<lambda>keyword. py_in keyword nm) exclude_keywords"
    using assms(2) by (simp add: list_ex_iff py_in_sublist)
  have none: "row_body fp iz i d r \<noteq> Inr (Some s)" for i d s
  proof
    assume "row_body fp iz i d r = Inr (Some s)"
    then show False using assms(1) ex by (elim row_body_SomeE) simp
  qed
  then have "snd (process_row fp iz rnd st r) = st"
    by (rule process_row_unchanged)
  with none show ?thesis by (simp add: exclude_keywords_def)
qed

theorem excluded_keyword_row_dropped_witness:
  "get_strip row_hotel key_name = Inr [0x41, 0x30DB, 0x30C6, 0x30EB] \<and>
   (\<exists>keyword \<in> set exclude_keywords. sublist keyword [0x41, 0x30DB, 0x30C6, 0x30EB]) \<and>
   (\<forall>i d s. row_body ex_float ex_is_zero i d row_hotel \<noteq> Inr (Some s)) \<and>
   snd (process_row ex_float ex_is_zero ex_randint init_state row_hotel) = init_state"
proof -
  have k: "\<exists>keyword \<in> set exclude_keywords. sublist keyword [0x41, 0x30DB, 0x30C6, 0x30EB]"
    unfolding py_in_sublist [symmetric] by (simp add: exclude_keywords_def)
  show ?thesis
    using excluded_keyword_row_dropped [OF get_strip_hotel k, of ex_float ex_is_zero ex_randint init_state]
      get_strip_hotel k by simp
qed

text \<open>
  C3. Let the stripped name, latitude text or longitude text of a row be empty, or the
  parsed latitude or longitude equal 0. Then the row produces no Spot record and the
  iteration leaves the state as it was; and if no cell that the loop reads is
  \<^verbatim>\<open>None\<close>, the row is dropped: the iteration ends without an exception, and the loop
  over any list of rows that contains the row gives what it gives on the list without
  it. Every record in \<^verbatim>\<open>spots\<close> after the loop has a non-empty name and a latitude
  and a longitude that are not 0.
\<close>

theorem missing_or_zero_row_dropped:
  "(get_strip r key_name = Inr [] \<or> get_strip r key_lat = Inr [] \<or> get_strip r key_lon = Inr [] \<or>
    (\<exists>lat_str x. get_strip r key_lat = Inr lat_str \<and> fp lat_str = Some x \<and> iz x) \<or>
    (\<exists>lon_str y. get_strip r key_lon = Inr lon_str \<and> fp lon_str = Some y \<and> iz y)
    \<longrightarrow> (\<forall>i d s. row_body fp iz i d r \<noteq> Inr (Some s)) \<and>
        snd (process_row fp iz rnd st r) = st \<and>
        (no_missing_cell r \<longrightarrow>
           process_row fp iz rnd st r = (None, st) \<and>
           process_rows fp iz rnd st0 (before @ r # after) =
             process_rows fp iz rnd st0 (before @ after))) \<and>
   (\<forall>s \<in> set (spots (snd (parse_csv fp iz rnd rows))).
      name s \<noteq> [] \<and> \<not> iz (latitude (location s)) \<and> \<not> iz (longitude (location s)))"
proof (intro conjI impI)
  assume h: "get_strip r key_name = Inr [] \<or> get_strip r key_lat = Inr [] \<or> get_strip r key_lon = Inr [] \<or>
    (\<exists>lat_str x. get_strip r key_lat = Inr lat_str \<and> fp lat_str = Some x \<and> iz x) \<or>
    (\<exists>lon_str y. get_strip r key_lon = Inr lon_str \<and> fp lon_str = Some y \<and> iz y)"
  have none: "row_body fp iz i d r \<noteq> Inr (Some s)" for i d s
  proof
    assume "row_body fp iz i d r = Inr (Some s)"
    then show False using h by (elim row_body_SomeE) auto
  qed
  then show "\<forall>i d s. row_body fp iz i d r \<noteq> Inr (Some s)" by blast
  show "snd (process_row fp iz rnd st r) = st"
    using none by (rule process_row_unchanged)
  assume cells: "no_missing_cell r"
  have skip: "process_row fp iz rnd st r = (None, st)" for st
    using none row_body_no_AttributeError [OF cells] by (rule process_row_continue)
  show "process_row fp iz rnd st r = (None, st)" by (rule skip)
  show "process_rows fp iz rnd st0 (before @ r # after) =
          process_rows fp iz rnd st0 (before @ after)"
    using skip by (rule process_rows_skip)
next
  let ?ok = "\<lambda>s. name s \<noteq> [] \<and> \<not> iz (latitude (location s)) \<and> \<not> iz (longitude (location s))"
  show "\<forall>s \<in> set (spots (snd (parse_csv fp iz rnd rows))). ?ok s"
    using spots_come_from_rows [of fp iz rnd rows] emitted_fields_ok [of fp iz]
    by blast
qed

theorem missing_or_zero_row_dropped_witness:
  "no_missing_cell row_zero \<and>
   get_strip row_zero key_lat = Inr [0x30] \<and>
   ex_float [0x30] = Some 0 \<and> ex_is_zero 0 \<and>
   (\<forall>i d s. row_body ex_float ex_is_zero i d row_zero \<noteq> Inr (Some s)) \<and>
   process_row ex_float ex_is_zero ex_randint init_state row_zero = (None, init_state) \<and>
   process_rows ex_float ex_is_zero ex_randint init_state ([row_temple] @ row_zero # [row_temple]) =
     process_rows ex_float ex_is_zero ex_randint init_state ([row_temple] @ [row_temple]) \<and>
   spots (snd (parse_csv ex_float ex_is_zero ex_randint [row_hotel, row_temple, row_zero])) =
     [spot_temple] \<and>
   name spot_temple \<noteq> [] \<and> \<not> ex_is_zero (latitude (location spot_temple)) \<and>
   \<not> ex_is_zero (longitude (location spot_temple))"
proof -
  have z: "ex_float [0x30] = Some 0" "ex_is_zero 0"
    by (simp_all add: ex_float_def ex_is_zero_def)
  have h: "\<exists>lat_str x. get_strip row_zero key_lat = Inr lat_str \<and> ex_float lat_str = Some x \<and> ex_is_zero x"
    using get_strip_zero(2) z by blast
  show ?thesis
    using missing_or_zero_row_dropped [of row_zero ex_float ex_is_zero ex_randint init_state
        init_state "[row_temple]" "[row_temple]" "[row_hotel, row_temple, row_zero]"]
      h get_strip_zero(2) z no_missing_cell_zero
    by (simp add: parse_csv_example1)
qed

text \<open>
  Without the condition on the cells the row need not be dropped. The name of
  \<open>row_blank\<close> is a blank, empty once stripped, and its latitude cell is \<^verbatim>\<open>None\<close>:
  \<^verbatim>\<open>.strip()\<close> raises \<^verbatim>\<open>AttributeError\<close> before the name is tested, the handler does
  not catch it, and the script ends without writing the list that the row after it
  would have given.
\<close>

theorem blank_short_row_aborts_counterexample:
  "get_strip row_blank key_name = Inr [] \<and>
   process_row ex_float ex_is_zero ex_randint init_state row_blank =
     (Some AttributeError, init_state) \<and>
   generated ex_float ex_is_zero ex_randint [row_blank, row_temple] = None \<and>
   generated ex_float ex_is_zero ex_randint [row_temple] = Some [spot_temple]"
  by (simp add: get_strip_blank process_row_blank generated_def parse_csv_def
      process_row_temple)

text \<open>
  C10. Let no cell that the loop reads be \<^verbatim>\<open>None\<close>. If the latitude text or the
  longitude text of the row is non-empty and \<^verbatim>\<open>float\<close> rejects it, the body either
  raises \<^verbatim>\<open>ValueError\<close> or has left the row by a \<^verbatim>\<open>continue\<close> before; the iteration
  ends without an exception and with the state as it was, so no Spot record is produced
  and the counter is unchanged; and the loop over any list of rows that contains the row
  gives what it gives on the list without it.
\<close>

theorem unparseable_coordinate_row_skipped:
  assumes "no_missing_cell r"
    and "get_strip r key_lat = Inr lat_str" and "get_strip r key_lon = Inr lon_str"
    and "lat_str \<noteq> [] \<and> fp lat_str = None \<or> lon_str \<noteq> [] \<and> fp lon_str = None"
  shows "(\<forall>i d. row_body fp iz i d r = Inl ValueError \<or> row_body fp iz i d r = Inr None) \<and>
         process_row fp iz rnd st r = (None, st) \<and>
         process_rows fp iz rnd st0 (before @ r # after) =
           process_rows fp iz rnd st0 (before @ after)"
proof -
  have none: "row_body fp iz i d r \<noteq> Inr (Some s)" for i d s
  proof
    assume "row_body fp iz i d r = Inr (Some s)"
    then show False using assms(2-4) by (elim row_body_SomeE) auto
  qed
  have body: "row_body fp iz i d r = Inl ValueError \<or> row_body fp iz i d r = Inr None" for i d
  proof (cases "row_body fp iz i d r")
    case (Inl e)
    then show ?thesis
      using row_body_no_AttributeError [OF assms(1), of fp iz i d] row_body_no_KeyError [of fp iz i d r]
      by (cases e) simp_all
  next
    case (Inr v)
    then show ?thesis using none [of i d] by (cases v) simp_all
  qed
  have skip: "process_row fp iz rnd st r = (None, st)" for st
    using none row_body_no_AttributeError [OF assms(1)] by (rule process_row_continue)
  show ?thesis
    using body skip process_rows_skip [of fp iz rnd r st0 before after, OF skip] by blast
qed

theorem unparseable_coordinate_row_skipped_witness:
  "no_missing_cell row_bad \<and>
   get_strip row_bad key_lat = Inr [0x78] \<and> get_strip row_bad key_lon = Inr [0x31, 0x33, 0x35] \<and>
   [0x78] \<noteq> ([] :: pystr) \<and> ex_float [0x78] = None \<and>
   row_body ex_float ex_is_zero 1 3 row_bad = Inl ValueError \<and>
   process_row ex_float ex_is_zero ex_randint init_state row_bad = (None, init_state) \<and>
   process_rows ex_float ex_is_zero ex_randint init_state ([row_temple] @ row_bad # [row_temple]) =
     process_rows ex_float ex_is_zero ex_randint init_state ([row_temple] @ [row_temple])"
proof -
  have u: "[0x78] \<noteq> ([] :: pystr) \<and> ex_float [0x78] = None \<or>
           [0x31, 0x33, 0x35] \<noteq> ([] :: pystr) \<and> ex_float [0x31, 0x33, 0x35] = None"
    by (simp add: ex_float_def)
  have e: "ex_float [0x78] = None"
    by (simp add: ex_float_def)
  show ?thesis
    using unparseable_coordinate_row_skipped [OF no_missing_cell_bad get_strip_bad(2,3) u,
        of ex_is_zero ex_randint init_state init_state "[row_temple]" "[row_temple]"]
      no_missing_cell_bad get_strip_bad(2,3) e
    by (simp add: row_body_bad)
qed

text \<open>
  Without the condition on the cells the statement of C10 fails. In \<open>row_short\<close> the
  latitude is the text \<^verbatim>\<open>x\<close>, and the cell of the detailed price is \<^verbatim>\<open>None\<close>:
  \<^verbatim>\<open>.strip()\<close> raises \<^verbatim>\<open>AttributeError\<close> before \<^verbatim>\<open>float\<close> is called, the handler
  does not catch it, and the script ends without writing the list that the rows after
  it would have given.
\<close>

theorem short_row_aborts_counterexample:
  "get_strip row_short key_lat = Inr [0x78] \<and> [0x78] \<noteq> ([] :: pystr) \<and> ex_float [0x78] = None \<and>
   process_row ex_float ex_is_zero ex_randint init_state row_short =
     (Some AttributeError, init_state) \<and>
   generated ex_float ex_is_zero ex_randint [row_short, row_temple] = None \<and>
   generated ex_float ex_is_zero ex_randint [row_temple] = Some [spot_temple]"
  by (simp add: get_strip_short ex_float_def process_row_short generated_def parse_csv_def
      process_row_temple)

section \<open>The fields of an emitted record\<close>

text \<open>
  A record is emitted when the body of the loop reaches \<^verbatim>\<open>spots.append(spot)\<close> for a
  row; every record of \<^verbatim>\<open>spots\<close> is emitted so for one of the rows
  (\<open>spots_come_from_rows\<close>).
\<close>

text \<open>
  C4. The description of an emitted record is the first 150 characters of the stripped
  description cell of its row when that text is non-empty, and the name followed by the
  fixed suffix otherwise.
\<close>

theorem description_truncated_or_fallback:
  assumes "row_body fp iz i d r = Inr (Some s)"
  shows "\<exists>nm ds. get_strip r key_name = Inr nm \<and> get_strip r key_description = Inr ds \<and>
           description s = (if ds \<noteq> [] then take 150 ds else nm @ description_suffix)"
  using assms by (elim row_body_SomeE) auto

theorem description_truncated_or_fallback_witness:
  "row_body ex_float ex_is_zero 1 3 row_temple = Inr (Some spot_temple) \<and>
   get_strip row_temple key_name = Inr [0x5BFA] \<and>
   get_strip row_temple key_description = Inr [0x5BFA] \<and>
   description spot_temple = take 150 [0x5BFA]"
  using description_truncated_or_fallback [OF row_body_temple] row_body_temple
  by (simp add: get_strip_temple)

text \<open>
  C5. The opening hours of an emitted record: when the stripped start time and end time
  are both non-empty, the start time, the wave character and the end time; otherwise the
  stripped note when it is non-empty; otherwise the key is absent.
\<close>

theorem opening_hours_rule:
  assumes "row_body fp iz i d r = Inr (Some s)"
  shows "\<exists>start_time end_time time_note.
           get_strip r key_start_time = Inr start_time \<and>
           get_strip r key_end_time = Inr end_time \<and>
           get_strip r key_time_note = Inr time_note \<and>
           openingHours s =
             (if start_time \<noteq> [] \<and> end_time \<noteq> [] then Some (start_time @ wave @ end_time)
              else if time_note \<noteq> [] then Some time_note
              else None)"
  using assms by (elim row_body_SomeE) (auto simp: wave_def)

theorem opening_hours_rule_witness:
  "row_body ex_float ex_is_zero 1 3 row_temple = Inr (Some spot_temple) \<and>
   get_strip row_temple key_start_time = Inr [0x39] \<and>
   get_strip row_temple key_end_time = Inr [0x31, 0x37] \<and>
   get_strip row_temple key_time_note = Inr [0x4F11] \<and>
   openingHours spot_temple = Some ([0x39] @ wave @ [0x31, 0x37])"
  using opening_hours_rule [OF row_body_temple] row_body_temple
  by (simp add: get_strip_temple)

text \<open>
  C6. The price of an emitted record: the stripped detailed price when it is non-empty,
  otherwise the stripped basic price when it is non-empty, otherwise the key is absent.
\<close>

theorem price_rule:
  assumes "row_body fp iz i d r = Inr (Some s)"
  shows "\<exists>price_detail price_basic.
           get_strip r key_price_detail = Inr price_detail \<and>
           get_strip r key_price_basic = Inr price_basic \<and>
           price s =
             (if price_detail \<noteq> [] then Some price_detail
              else if price_basic \<noteq> [] then Some price_basic
              else None)"
  using assms by (elim row_body_SomeE) auto

theorem price_rule_witness:
  "row_body ex_float ex_is_zero 1 3 row_temple = Inr (Some spot_temple) \<and>
   get_strip row_temple key_price_detail = Inr [] \<and>
   get_strip row_temple key_price_basic = Inr [0x35] \<and>
   price spot_temple = Some [0x35]"
  using price_rule [OF row_body_temple] row_body_temple
  by (simp add: get_strip_temple)

text \<open>
  C8. The counter starts at 1; an iteration either leaves the state as it was or appends
  one record, whose id is made from the counter, and adds 1 to the counter; hence the
  \<open>k\<close>-th record of \<^verbatim>\<open>spots\<close>, counted from 1, has the id \<^verbatim>\<open>spot-k\<close>.
\<close>

theorem spot_ids_sequential:
  "spot_id (init_state :: 'f gen_state) = 1 \<and>
   (snd (process_row fp iz rnd (st :: 'f gen_state) r) = st \<or>
    (\<exists>s. snd (process_row fp iz rnd st r) =
            st \<lparr> spots := spots st @ [s], spot_id := spot_id st + 1,
                 rand_calls := Suc (rand_calls st) \<rparr> \<and>
         id_key s = spot_prefix @ py_str (spot_id st))) \<and>
   (\<forall>k. 1 \<le> k \<and> k \<le> length (spots (snd (parse_csv fp iz rnd rows))) \<longrightarrow>
        id_key (spots (snd (parse_csv fp iz rnd rows)) ! (k - 1)) = spot_prefix @ py_str (int k))"
proof (intro conjI allI impI)
  show "spot_id (init_state :: 'f gen_state) = 1" by (simp add: init_state_def)
next
  show "snd (process_row fp iz rnd st r) = st \<or>
    (\<exists>s. snd (process_row fp iz rnd st r) =
            st \<lparr> spots := spots st @ [s], spot_id := spot_id st + 1,
                 rand_calls := Suc (rand_calls st) \<rparr> \<and>
         id_key s = spot_prefix @ py_str (spot_id st))"
    using process_row_cases [of fp iz rnd st r] emitted_id [of fp iz "spot_id st" _ r]
    by auto
next
  fix k
  assume k: "1 \<le> k \<and> k \<le> length (spots (snd (parse_csv fp iz rnd rows)))"
  define S where "S = spots (snd (process_rows fp iz rnd init_state rows))"
  have "ids_ok (snd (process_rows fp iz rnd init_state rows))"
  proof (rule process_rows_invariant [where I = ids_ok])
    show "ids_ok init_state" by (simp add: ids_ok_def init_state_def)
  next
    fix st :: "'f gen_state" and r
    assume "ids_ok st"
    then show "ids_ok (snd (process_row fp iz rnd st r))" by (rule ids_ok_process_row)
  qed
  then have all: "\<forall>j < length S. id_key (S ! j) = spot_prefix @ py_str (int j + 1)"
    by (simp add: ids_ok_def S_def)
  have j: "k - 1 < length S" and i: "int (k - 1) + 1 = int k"
    using k by (auto simp: S_def parse_csv_def)
  from all j have "id_key (S ! (k - 1)) = spot_prefix @ py_str (int (k - 1) + 1)"
    by blast
  then show "id_key (spots (snd (parse_csv fp iz rnd rows)) ! (k - 1)) = spot_prefix @ py_str (int k)"
    unfolding i by (simp add: S_def parse_csv_def)
qed

theorem spot_ids_sequential_witness:
  "(1::nat) \<le> 2 \<and>
   2 \<le> length (spots (snd (parse_csv ex_float ex_is_zero ex_randint [row_temple, row_hotel, row_temple]))) \<and>
   id_key (spots (snd (parse_csv ex_float ex_is_zero ex_randint [row_temple, row_hotel, row_temple])) ! (2 - 1)) =
     spot_prefix @ py_str 2 \<and>
   spot_prefix @ py_str 2 = [0x73, 0x70, 0x6F, 0x74, 0x2D, 0x32]"
proof -
  have len: "2 \<le> length (spots (snd (parse_csv ex_float ex_is_zero ex_randint [row_temple, row_hotel, row_temple])))"
    by (simp add: parse_csv_example2)
  have "(1::nat) \<le> 2 \<and>
      2 \<le> length (spots (snd (parse_csv ex_float ex_is_zero ex_randint [row_temple, row_hotel, row_temple]))) \<longrightarrow>
    id_key (spots (snd (parse_csv ex_float ex_is_zero ex_randint [row_temple, row_hotel, row_temple])) ! (2 - 1)) =
     spot_prefix @ py_str (int 2)"
    using spot_ids_sequential [of ex_float ex_is_zero ex_randint init_state row_temple
        "[row_temple, row_hotel, row_temple]"]
    by (elim conjE) (erule allE [of _ 2])
  then show ?thesis using len by (simp add: spot_prefix_def py_str_2)
qed

end
